theory Spec2Isabelle
  imports Complex_Main
begin

section \<open>Floating-point values\<close>

text \<open>
  The samples, the measured loudness and the loudness target of \<^verbatim>\<open>backend/main.py\<close> are
  IEEE floating-point numbers. They are modelled as the reals extended with the two
  infinities and NaN. Finite arithmetic is exact: rounding, overflow of finite operands and
  the sign of zero are not modelled, so a cast between float32 and float64 is the identity.
  The operations on the special values follow IEEE 754 as numpy and Python implement it.
\<close>

datatype fp = Fin real | PInf | NInf | NaN

fun fneg :: "fp \<Rightarrow> fp" where
  "fneg (Fin x) = Fin (- x)"
| "fneg PInf = NInf"
| "fneg NInf = PInf"
| "fneg NaN = NaN"

fun fadd :: "fp \<Rightarrow> fp \<Rightarrow> fp" where
  "fadd (Fin x) (Fin y) = Fin (x + y)"
| "fadd (Fin x) PInf = PInf"
| "fadd (Fin x) NInf = NInf"
| "fadd PInf (Fin y) = PInf"
| "fadd PInf PInf = PInf"
| "fadd PInf NInf = NaN"
| "fadd NInf (Fin y) = NInf"
| "fadd NInf PInf = NaN"
| "fadd NInf NInf = NInf"
| "fadd NaN y = NaN"
| "fadd x NaN = NaN"

definition fsub :: "fp \<Rightarrow> fp \<Rightarrow> fp" where
  "fsub x y = fadd x (fneg y)"

text \<open>The infinity that a nonzero real of the given sign turns \<open>+inf\<close> into.\<close>

definition inf_signed :: "real \<Rightarrow> fp" where
  "inf_signed s = (if s = 0 then NaN else if 0 < s then PInf else NInf)"

fun fmul :: "fp \<Rightarrow> fp \<Rightarrow> fp" where
  "fmul (Fin x) (Fin y) = Fin (x * y)"
| "fmul (Fin x) PInf = inf_signed x"
| "fmul (Fin x) NInf = inf_signed (- x)"
| "fmul PInf (Fin y) = inf_signed y"
| "fmul PInf PInf = PInf"
| "fmul PInf NInf = NInf"
| "fmul NInf (Fin y) = inf_signed (- y)"
| "fmul NInf PInf = NInf"
| "fmul NInf NInf = PInf"
| "fmul NaN y = NaN"
| "fmul x NaN = NaN"

text \<open>
  Division as numpy performs it on arrays (no exception). A zero divisor counts as \<open>+0\<close>;
  the source never divides an array by zero, and its scalar divisions by zero raise
  \<^verbatim>\<open>ZeroDivisionError\<close>, which the functions below model as an error value.
\<close>

fun fdiv :: "fp \<Rightarrow> fp \<Rightarrow> fp" where
  "fdiv (Fin x) (Fin y) = (if y = 0 then inf_signed x else Fin (x / y))"
| "fdiv (Fin x) PInf = Fin 0"
| "fdiv (Fin x) NInf = Fin 0"
| "fdiv PInf (Fin y) = (if y < 0 then NInf else PInf)"
| "fdiv PInf PInf = NaN"
| "fdiv PInf NInf = NaN"
| "fdiv NInf (Fin y) = (if y < 0 then PInf else NInf)"
| "fdiv NInf PInf = NaN"
| "fdiv NInf NInf = NaN"
| "fdiv NaN y = NaN"
| "fdiv x NaN = NaN"

fun fabs :: "fp \<Rightarrow> fp" where
  "fabs (Fin x) = Fin \<bar>x\<bar>"
| "fabs PInf = PInf"
| "fabs NInf = PInf"
| "fabs NaN = NaN"

fun ftanh :: "fp \<Rightarrow> fp" where
  "ftanh (Fin x) = Fin (tanh x)"
| "ftanh PInf = Fin 1"
| "ftanh NInf = Fin (- 1)"
| "ftanh NaN = NaN"

text \<open>\<^verbatim>\<open>10.0 ** x\<close>.\<close>

fun fpow10 :: "fp \<Rightarrow> fp" where
  "fpow10 (Fin x) = Fin (10 powr x)"
| "fpow10 PInf = PInf"
| "fpow10 NInf = Fin 0"
| "fpow10 NaN = NaN"

text \<open>Comparisons: every comparison with NaN is false.\<close>

fun fle :: "fp \<Rightarrow> fp \<Rightarrow> bool" where
  "fle (Fin x) (Fin y) = (x \<le> y)"
| "fle (Fin x) PInf = True"
| "fle (Fin x) NInf = False"
| "fle PInf (Fin y) = False"
| "fle PInf PInf = True"
| "fle PInf NInf = False"
| "fle NInf (Fin y) = True"
| "fle NInf PInf = True"
| "fle NInf NInf = True"
| "fle NaN y = False"
| "fle x NaN = False"

definition fgt :: "fp \<Rightarrow> fp \<Rightarrow> bool" where
  "fgt x y = (fle y x \<and> \<not> fle x y)"

text \<open>The maximum of two values as \<^verbatim>\<open>np.max\<close> reduces with it: NaN propagates.\<close>

definition fmax2 :: "fp \<Rightarrow> fp \<Rightarrow> fp" where
  "fmax2 x y = (if x = NaN \<or> y = NaN then NaN else if fle x y then y else x)"

section \<open>Arrays\<close>

text \<open>
  A numpy array of the shapes the source handles: \<open>Arr1 xs\<close> has shape \<open>(length xs,)\<close>;
  \<open>Arr2 n cols\<close> has shape \<open>(n, length cols)\<close> and \<open>cols ! ch\<close> is the column
  \<^verbatim>\<open>audio[:, ch]\<close>, of \<open>n\<close> entries.
\<close>

datatype 'a ndarray = Arr1 "'a list" | Arr2 nat "'a list list"

fun frame_count :: "'a ndarray \<Rightarrow> nat" where
  "frame_count (Arr1 xs) = length xs"
| "frame_count (Arr2 n cols) = n"

fun channel_count :: "'a ndarray \<Rightarrow> nat" where
  "channel_count (Arr1 xs) = 1"
| "channel_count (Arr2 n cols) = length cols"

fun columns :: "'a ndarray \<Rightarrow> 'a list list" where
  "columns (Arr1 xs) = [xs]"
| "columns (Arr2 n cols) = cols"

fun elems :: "'a ndarray \<Rightarrow> 'a list" where
  "elems (Arr1 xs) = xs"
| "elems (Arr2 n cols) = concat cols"

text \<open>An elementwise operation, such as \<^verbatim>\<open>audio * gain\<close> or \<^verbatim>\<open>np.tanh(x)\<close>.\<close>

fun amap :: "('a \<Rightarrow> 'b) \<Rightarrow> 'a ndarray \<Rightarrow> 'b ndarray" where
  "amap f (Arr1 xs) = Arr1 (map f xs)"
| "amap f (Arr2 n cols) = Arr2 n (map (map f) cols)"

section \<open>The input encodings\<close>

text \<open>
  The integer dtypes of numpy (kind \<^verbatim>\<open>i\<close> and kind \<^verbatim>\<open>u\<close>) and what
  \<^verbatim>\<open>np.iinfo(dtype)\<close> reports for them.
\<close>

datatype int_dtype = Int8 | Int16 | Int32 | Int64 | UInt8 | UInt16 | UInt32 | UInt64

fun iinfo_max :: "int_dtype \<Rightarrow> int" where
  "iinfo_max Int8 = 127"
| "iinfo_max Int16 = 32767"
| "iinfo_max Int32 = 2147483647"
| "iinfo_max Int64 = 9223372036854775807"
| "iinfo_max UInt8 = 255"
| "iinfo_max UInt16 = 65535"
| "iinfo_max UInt32 = 4294967295"
| "iinfo_max UInt64 = 18446744073709551615"

fun iinfo_min :: "int_dtype \<Rightarrow> int" where
  "iinfo_min Int8 = - 128"
| "iinfo_min Int16 = - 32768"
| "iinfo_min Int32 = - 2147483648"
| "iinfo_min Int64 = - 9223372036854775808"
| "iinfo_min UInt8 = 0"
| "iinfo_min UInt16 = 0"
| "iinfo_min UInt32 = 0"
| "iinfo_min UInt64 = 0"

definition representable :: "int_dtype \<Rightarrow> int \<Rightarrow> bool" where
  "representable d v = (iinfo_min d \<le> v \<and> v \<le> iinfo_max d)"

text \<open>The decoded input: an integer array with its dtype, or a floating-point array.\<close>

datatype raw_audio = IntAudio int_dtype "int ndarray" | FloatAudio "fp ndarray"

fun raw_frame_count :: "raw_audio \<Rightarrow> nat" where
  "raw_frame_count (IntAudio d a) = frame_count a"
| "raw_frame_count (FloatAudio a) = frame_count a"

fun raw_channel_count :: "raw_audio \<Rightarrow> nat" where
  "raw_channel_count (IntAudio d a) = channel_count a"
| "raw_channel_count (FloatAudio a) = channel_count a"

fun raw_columns_length :: "raw_audio \<Rightarrow> nat list" where
  "raw_columns_length (IntAudio d a) = map length (columns a)"
| "raw_columns_length (FloatAudio a) = map length (columns a)"

section \<open>The stages of the mastering chain\<close>

text \<open>
  The exceptions that can leave the functions below: Python's own division by zero, and
  what the libraries behind the parameters raise.
\<close>

datatype error = ZeroDivisionError | ValueError | RuntimeError

text \<open>\<^verbatim>\<open>_to_float32_audio\<close>\<close>

fun to_float32_audio :: "raw_audio \<Rightarrow> fp ndarray" where
  "to_float32_audio (IntAudio d a) =
     (let max_val = iinfo_max d
      in amap (\<lambda>v. fdiv (Fin (real_of_int v)) (Fin (real_of_int max_val))) a)"
| "to_float32_audio (FloatAudio a) = a"

text \<open>
  \<^verbatim>\<open>_highpass\<close>. The coefficient is computed first, in Python floats: a division by
  zero raises \<^verbatim>\<open>ZeroDivisionError\<close>. The sample rate is a Python int, the cutoff a finite
  Python float.
\<close>

definition highpass_coeff :: "int \<Rightarrow> real \<Rightarrow> error + real" where
  "highpass_coeff sr cutoff_hz =
     (if sr = 0 then Inl ZeroDivisionError
      else let dt = 1 / real_of_int sr
      in if 2 * pi * cutoff_hz = 0 then Inl ZeroDivisionError
      else let rc = 1 / (2 * pi * cutoff_hz)
      in if rc + dt = 0 then Inl ZeroDivisionError
      else Inr (rc / (rc + dt)))"

text \<open>The loop over one channel, with its state \<open>x_prev\<close>, \<open>y_prev\<close>.\<close>

fun highpass_loop :: "real \<Rightarrow> fp \<Rightarrow> fp \<Rightarrow> fp list \<Rightarrow> fp list" where
  "highpass_loop a x_prev y_prev [] = []"
| "highpass_loop a x_prev y_prev (x # xs) =
     (let y_i = fmul (Fin a) (fsub (fadd y_prev x) x_prev)
      in y_i # highpass_loop a x y_i xs)"

fun highpass :: "fp ndarray \<Rightarrow> int \<Rightarrow> real \<Rightarrow> error + fp ndarray" where
  "highpass (Arr1 xs) sr cutoff_hz =
     (case highpass_coeff sr cutoff_hz of
        Inl e \<Rightarrow> Inl e
      | Inr a \<Rightarrow> Inr (Arr1 (highpass_loop a (Fin 0) (Fin 0) xs)))"
| "highpass (Arr2 n cols) sr cutoff_hz =
     (case highpass_coeff sr cutoff_hz of
        Inl e \<Rightarrow> Inl e
      | Inr a \<Rightarrow> Inr (Arr2 n (map (highpass_loop a (Fin 0) (Fin 0)) cols)))"

text \<open>\<^verbatim>\<open>_soft_limiter\<close>. The threshold is a finite Python float.\<close>

definition soft_limiter :: "fp ndarray \<Rightarrow> real \<Rightarrow> fp ndarray" where
  "soft_limiter audio threshold =
     (let threshold = (if threshold \<le> 0 \<or> threshold > 1 then 0.95 else threshold);
          x = amap (\<lambda>s. fdiv s (Fin threshold)) audio;
          y = amap (\<lambda>s. fmul (ftanh s) (Fin threshold)) x
      in y)"

text \<open>
  \<^verbatim>\<open>_true_peak_guard\<close>. \<open>peak_of\<close> is
  \<^verbatim>\<open>float(np.max(np.abs(audio))) if audio.size else 0.0\<close>; the ceiling in dB is a finite
  Python float.
\<close>

definition peak_of :: "fp ndarray \<Rightarrow> fp" where
  "peak_of audio =
     (case map fabs (elems audio) of
        [] \<Rightarrow> Fin 0
      | v # vs \<Rightarrow> fold (\<lambda>w m. fmax2 m w) vs v)"

definition true_peak_guard :: "fp ndarray \<Rightarrow> real \<Rightarrow> fp ndarray" where
  "true_peak_guard audio target_peak_db =
     (let peak = peak_of audio
      in if fle peak (Fin 0) then audio
      else let target = Fin (10 powr (target_peak_db / 20))
      in if fgt peak target then amap (\<lambda>s. fmul s (fdiv target peak)) audio
      else audio)"

text \<open>
  \<^verbatim>\<open>master_chain\<close>. The loudness meter is the library pyloudnorm, which is not part of
  the repository: it is a parameter, taking the sample rate and the buffer and returning
  the integrated loudness or raising. \<open>audio_for_lufs\<close> is the local variable of that
  name, \<open>apply_gain\<close> the three lines that compute the gain and multiply by it.
\<close>

fun audio_for_lufs :: "fp ndarray \<Rightarrow> fp ndarray" where
  "audio_for_lufs (Arr1 xs) = Arr1 xs"
| "audio_for_lufs (Arr2 n cols) = (if length cols > 2 then Arr2 n (take 2 cols) else Arr2 n cols)"

definition apply_gain :: "fp \<Rightarrow> fp \<Rightarrow> fp ndarray \<Rightarrow> fp ndarray" where
  "apply_gain target_lufs loudness audio =
     (let gain_db = fsub target_lufs loudness;
          gain = fpow10 (fdiv gain_db (Fin 20))
      in amap (\<lambda>s. fmul s gain) audio)"

definition master_chain ::
  "(int \<Rightarrow> fp ndarray \<Rightarrow> error + fp) \<Rightarrow> raw_audio \<Rightarrow> int \<Rightarrow> fp \<Rightarrow> error + fp ndarray" where
  "master_chain meter audio sr target_lufs =
     (case highpass (to_float32_audio audio) sr 80 of
        Inl e \<Rightarrow> Inl e
      | Inr filtered \<Rightarrow>
          (case meter sr (audio_for_lufs filtered) of
             Inl e \<Rightarrow> Inl e
           | Inr loudness \<Rightarrow>
               Inr (true_peak_guard
                      (soft_limiter (apply_gain target_lufs loudness filtered) 0.95) (- 1))))"

section \<open>The endpoint\<close>





section \<open>The formulas of the specification\<close>

text \<open>
  Three definitions that follow the words of the specification, over the reals. The
  theorems below compare the stages above with them.

  The recurrence of the high-pass filter, \<open>y[n] = a \<cdot> (y[n-1] + x[n] - x[n-1])\<close> with
  \<open>x[-1] = y[-1] = 0\<close>, for a signal \<open>x\<close> given as a function of the index.
\<close>

fun highpass_spec :: "real \<Rightarrow> (nat \<Rightarrow> real) \<Rightarrow> nat \<Rightarrow> real" where
  "highpass_spec a x 0 = a * (0 + x 0 - 0)"
| "highpass_spec a x (Suc n) = a * (highpass_spec a x n + x (Suc n) - x n)"


text \<open>The peak of a buffer of finite samples, \<open>max(|sample|)\<close>, and 0 for an empty one.\<close>

definition sample_peak :: "real list \<Rightarrow> real" where
  "sample_peak xs = (if xs = [] then 0 else Max (set (map abs xs)))"

section \<open>Basic facts\<close>

subsection \<open>Arrays and shapes\<close>


lemma shape_amap:
  "frame_count (amap f a) = frame_count a"
  "channel_count (amap f a) = channel_count a"
  "map length (columns (amap f a)) = map length (columns a)"
  by (cases a; simp)+

lemma shape_to_float32_audio:
  "frame_count (to_float32_audio raw) = raw_frame_count raw"
  "channel_count (to_float32_audio raw) = raw_channel_count raw"
  "map length (columns (to_float32_audio raw)) = raw_columns_length raw"
  by (cases raw; simp add: shape_amap Let_def)+

lemma shape_apply_gain:
  "frame_count (apply_gain t l a) = frame_count a"
  "channel_count (apply_gain t l a) = channel_count a"
  "map length (columns (apply_gain t l a)) = map length (columns a)"
  by (simp_all add: apply_gain_def Let_def shape_amap)

lemma shape_soft_limiter:
  "frame_count (soft_limiter a th) = frame_count a"
  "channel_count (soft_limiter a th) = channel_count a"
  "map length (columns (soft_limiter a th)) = map length (columns a)"
  by (simp_all add: soft_limiter_def Let_def shape_amap)

lemma shape_true_peak_guard:
  "frame_count (true_peak_guard a db) = frame_count a"
  "channel_count (true_peak_guard a db) = channel_count a"
  "map length (columns (true_peak_guard a db)) = map length (columns a)"
  by (simp_all add: true_peak_guard_def Let_def shape_amap)

subsection \<open>The high-pass filter\<close>

lemma highpass_coeff_positive:
  assumes "0 < sr" and "0 < cutoff_hz"
  shows "highpass_coeff sr cutoff_hz =
           Inr ((1 / (2 * pi * cutoff_hz)) / (1 / (2 * pi * cutoff_hz) + 1 / real_of_int sr))"
proof -
  have rc: "0 < 1 / (2 * pi * cutoff_hz)" using assms(2) by simp
  have dt: "0 < 1 / real_of_int sr" using assms(1) by simp
  have "1 / (2 * pi * cutoff_hz) + 1 / real_of_int sr \<noteq> 0" using rc dt by linarith
  then show ?thesis using assms by (simp add: highpass_coeff_def Let_def)
qed

lemma highpass_succeeds:
  assumes "0 < sr" and "0 < cutoff_hz"
  shows "\<exists>h. highpass a sr cutoff_hz = Inr h"
  using highpass_coeff_positive [OF assms] by (cases a) simp_all

lemma length_highpass_loop: "length (highpass_loop a xp yp xs) = length xs"
  by (induction xs arbitrary: xp yp) (simp_all add: Let_def)

lemma shape_highpass:
  assumes "highpass a sr cutoff_hz = Inr h"
  shows "frame_count h = frame_count a \<and> channel_count h = channel_count a \<and>
         map length (columns h) = map length (columns a)"
  using assms by (cases a) (auto simp: length_highpass_loop split: sum.splits)

lemma highpass_loop_zeros:
  "highpass_loop a (Fin 0) (Fin 0) (replicate n (Fin 0)) = replicate n (Fin 0)"
  by (induction n) (simp_all add: fsub_def Let_def)

text \<open>Each output sample in terms of the previous output and the two last inputs.\<close>

lemma highpass_loop_nth:
  "n < length xs \<Longrightarrow>
   highpass_loop a xp yp xs ! n =
     fmul (Fin a)
       (fsub (fadd (if n = 0 then yp else highpass_loop a xp yp xs ! (n - 1)) (xs ! n))
             (if n = 0 then xp else xs ! (n - 1)))"
proof (induction xs arbitrary: xp yp n)
  case Nil
  then show ?case by simp
next
  case (Cons x xs)
  show ?case
  proof (cases n)
    case 0
    then show ?thesis by (simp add: Let_def)
  next
    case (Suc m)
    then have m: "m < length xs" using Cons.prems by simp
    show ?thesis
      using Cons.IH [OF m, of x "fmul (Fin a) (fsub (fadd yp x) xp)"] Suc
      by (cases m) (simp_all add: Let_def)
  qed
qed

lemma highpass_loop_finite:
  "n < length rs \<Longrightarrow>
   highpass_loop a (Fin 0) (Fin 0) (map Fin rs) ! n = Fin (highpass_spec a (\<lambda>i. rs ! i) n)"
proof (induction n)
  case 0
  then show ?case
    using highpass_loop_nth [of 0 "map Fin rs" a "Fin 0" "Fin 0"] by (simp add: fsub_def)
next
  case (Suc n)
  then have ih: "highpass_loop a (Fin 0) (Fin 0) (map Fin rs) ! n =
      Fin (highpass_spec a (\<lambda>i. rs ! i) n)"
    by simp
  have "highpass_loop a (Fin 0) (Fin 0) (map Fin rs) ! Suc n =
      fmul (Fin a)
        (fsub (fadd (highpass_loop a (Fin 0) (Fin 0) (map Fin rs) ! n) (map Fin rs ! Suc n))
           (map Fin rs ! n))"
    using highpass_loop_nth [of "Suc n" "map Fin rs" a "Fin 0" "Fin 0"] Suc.prems by simp
  then show ?case using Suc.prems by (simp add: ih fsub_def)
qed

subsection \<open>The hyperbolic tangent and the limiter curve\<close>









subsection \<open>The peak\<close>

lemma fold_fmax2_NaN: "fold (\<lambda>w m. fmax2 m w) vs NaN = NaN"
  by (induction vs) (simp_all add: fmax2_def)

lemma peak_of_all_NaN: "0 < n \<Longrightarrow> peak_of (Arr1 (replicate n NaN)) = NaN"
  by (cases n) (simp_all add: peak_of_def fold_fmax2_NaN)



lemma sample_peak_ge: "x \<in> set xs \<Longrightarrow> \<bar>x\<bar> \<le> sample_peak xs"
proof -
  assume x: "x \<in> set xs"
  then have "xs \<noteq> []" by auto
  moreover have "\<bar>x\<bar> \<le> Max (set (map abs xs))" using x by (intro Max_ge) simp_all
  ultimately show ?thesis by (simp add: sample_peak_def)
qed

lemma sample_peak_nonneg: "0 \<le> sample_peak xs"
proof (cases xs)
  case Nil
  then show ?thesis by (simp add: sample_peak_def)
next
  case (Cons x ys)
  then have "\<bar>x\<bar> \<le> sample_peak xs" by (intro sample_peak_ge) simp
  then show ?thesis by simp
qed



subsection \<open>The chain and the endpoint\<close>

lemma shape_master_chain:
  assumes "master_chain meter raw sr t = Inr out"
  shows "frame_count out = raw_frame_count raw \<and> channel_count out = raw_channel_count raw \<and>
         map length (columns out) = raw_columns_length raw"
proof -
  obtain h l where h: "highpass (to_float32_audio raw) sr 80 = Inr h"
    and out: "out = true_peak_guard (soft_limiter (apply_gain t l h) 0.95) (- 1)"
    using assms unfolding master_chain_def by (auto split: sum.splits)
  show ?thesis
    using shape_highpass [OF h]
    by (simp add: out shape_true_peak_guard shape_soft_limiter shape_apply_gain
        shape_to_float32_audio)
qed


section \<open>Silent input\<close>

text \<open>
  C1. The claim: for a silent buffer, whose measured loudness is the sentinel \<open>-inf\<close>, the
  gain is clamped, silence comes out and the output holds no NaN. The code has no clamp:
  the gain in dB is \<open>target - (-inf) = +inf\<close>, the linear gain is \<open>+inf\<close>, and every
  zero sample becomes \<open>0 \<cdot> inf = NaN\<close>, which the limiter and the peak guard pass on. For
  every positive sample rate, every finite target and every length, a silent mono buffer
  that the meter measures as \<open>-inf\<close> is mastered to a buffer of NaN.
\<close>

theorem master_chain_silence_gives_NaN:
  assumes "0 < sr" and "meter sr (Arr1 (replicate n (Fin 0))) = Inr NInf"
  shows "master_chain meter (FloatAudio (Arr1 (replicate n (Fin 0)))) sr (Fin t) =
           Inr (Arr1 (replicate n NaN))"
proof -
  obtain a where a: "highpass_coeff sr 80 = Inr a"
    using highpass_coeff_positive [OF assms(1), of 80] by simp
  have g: "apply_gain (Fin t) NInf (Arr1 (replicate n (Fin 0))) = Arr1 (replicate n NaN)"
    by (simp add: apply_gain_def fsub_def inf_signed_def)
  have s: "soft_limiter (Arr1 (replicate n NaN)) th = Arr1 (replicate n NaN)" for th
    by (simp add: soft_limiter_def)
  have p: "true_peak_guard (Arr1 (replicate n NaN)) (- 1) = Arr1 (replicate n NaN)"
  proof (cases n)
    case 0
    then show ?thesis by (simp add: true_peak_guard_def peak_of_def)
  next
    case (Suc m)
    then have "peak_of (Arr1 (replicate n NaN)) = NaN"
      using peak_of_all_NaN [of n] by simp
    then show ?thesis by (simp add: true_peak_guard_def fgt_def)
  qed
  show ?thesis
    unfolding master_chain_def by (simp add: a highpass_loop_zeros assms(2) g s p)
qed

theorem master_chain_silence_gives_NaN_witness:
  "master_chain (\<lambda>sr a. Inr NInf) (FloatAudio (Arr1 [Fin 0, Fin 0, Fin 0])) 44100 (Fin (- 14)) =
     Inr (Arr1 [NaN, NaN, NaN])"
  using master_chain_silence_gives_NaN [of 44100 "\<lambda>sr a. Inr NInf" 3 "- 14"]
  by (simp add: numeral_3_eq_3)

section \<open>The endpoint and its configuration\<close>




section \<open>The high-pass filter\<close>

text \<open>
  C3. For every positive sample rate and cutoff, with \<open>dt = 1 / sampleRate\<close>,
  \<open>rc = 1 / (2 \<pi> cutoffHz)\<close> and \<open>a = rc / (rc + dt)\<close>, the filter returns, its output has
  the length of the input (nothing is cut off at the start) and satisfies
  \<open>y[n] = a \<cdot> (y[n-1] + x[n] - x[n-1])\<close> with \<open>x[-1] = y[-1] = 0\<close>: in the arithmetic of
  the samples for every buffer, and as the recurrence over the reals for every buffer of
  finite samples. A buffer of several channels is filtered channel by channel: each output
  column is the filter's output on that input column alone.
\<close>

theorem highpass_recurrence:
  assumes "0 < sr" and "0 < cutoff_hz"
  shows "let dt = 1 / real_of_int sr; rc = 1 / (2 * pi * cutoff_hz); a = rc / (rc + dt) in
     (\<exists>ys. highpass (Arr1 xs) sr cutoff_hz = Inr (Arr1 ys) \<and> length ys = length xs \<and>
        (\<forall>n<length xs. ys ! n =
           fmul (Fin a) (fsub (fadd (if n = 0 then Fin 0 else ys ! (n - 1)) (xs ! n))
                              (if n = 0 then Fin 0 else xs ! (n - 1))))) \<and>
     (\<exists>ys. highpass (Arr1 (map Fin rs)) sr cutoff_hz = Inr (Arr1 ys) \<and> length ys = length rs \<and>
        (\<forall>n<length rs. ys ! n = Fin (highpass_spec a (\<lambda>i. rs ! i) n))) \<and>
     (\<exists>ycols. highpass (Arr2 m cols) sr cutoff_hz = Inr (Arr2 m ycols) \<and>
        length ycols = length cols \<and>
        (\<forall>ch<length cols. length (ycols ! ch) = length (cols ! ch) \<and>
           highpass (Arr1 (cols ! ch)) sr cutoff_hz = Inr (Arr1 (ycols ! ch))))"
proof -
  define a where "a = (1 / (2 * pi * cutoff_hz)) / (1 / (2 * pi * cutoff_hz) + 1 / real_of_int sr)"
  have c: "highpass_coeff sr cutoff_hz = Inr a"
    using highpass_coeff_positive [OF assms] by (simp add: a_def)
  have one: "\<exists>ys. highpass (Arr1 xs) sr cutoff_hz = Inr (Arr1 ys) \<and> length ys = length xs \<and>
        (\<forall>n<length xs. ys ! n =
           fmul (Fin a) (fsub (fadd (if n = 0 then Fin 0 else ys ! (n - 1)) (xs ! n))
                              (if n = 0 then Fin 0 else xs ! (n - 1))))"
    using highpass_loop_nth [of _ xs a "Fin 0" "Fin 0"]
    by (intro exI [of _ "highpass_loop a (Fin 0) (Fin 0) xs"]) (simp add: c length_highpass_loop)
  have two: "\<exists>ys. highpass (Arr1 (map Fin rs)) sr cutoff_hz = Inr (Arr1 ys) \<and>
        length ys = length rs \<and> (\<forall>n<length rs. ys ! n = Fin (highpass_spec a (\<lambda>i. rs ! i) n))"
    by (intro exI [of _ "highpass_loop a (Fin 0) (Fin 0) (map Fin rs)"])
       (simp add: c length_highpass_loop highpass_loop_finite)
  have three: "\<exists>ycols. highpass (Arr2 m cols) sr cutoff_hz = Inr (Arr2 m ycols) \<and>
        length ycols = length cols \<and>
        (\<forall>ch<length cols. length (ycols ! ch) = length (cols ! ch) \<and>
           highpass (Arr1 (cols ! ch)) sr cutoff_hz = Inr (Arr1 (ycols ! ch)))"
    by (intro exI [of _ "map (highpass_loop a (Fin 0) (Fin 0)) cols"])
       (simp add: c length_highpass_loop)
  show ?thesis
    unfolding Let_def a_def [symmetric] using one two three by blast
qed

theorem highpass_recurrence_witness:
  "\<exists>a. highpass (Arr1 [Fin 1, Fin 3]) 44100 80 = Inr (Arr1 [Fin a, Fin (a * (a + 3 - 1))]) \<and>
     highpass (Arr2 2 [[Fin 1, Fin 3], [Fin 0, Fin 0]]) 44100 80 =
       Inr (Arr2 2 [[Fin a, Fin (a * (a + 3 - 1))], [Fin 0, Fin 0]])"
proof -
  note w = highpass_recurrence [of 44100 80 "[Fin 1, Fin 3]" "[1, 3]" 2
      "[[Fin 1, Fin 3], [Fin 0, Fin 0]]"]
  obtain a where "highpass_coeff 44100 80 = Inr a"
    using w by (auto simp: Let_def split: sum.splits)
  then show ?thesis by (intro exI [of _ a]) (simp add: fsub_def Let_def)
qed

section \<open>The soft limiter\<close>





section \<open>The peak guard\<close>




section \<open>The shape of the buffer\<close>

text \<open>
  C7. Every stage of the chain (normalize, high-pass, gain, soft limit, peak guard) keeps
  the frame count and the channel count of its buffer, so whatever \<open>master_chain\<close> returns
  has the frame count and the channel count of the input, and the length of every channel;
  and for a positive sample rate the chain does return whenever the loudness meter does.
\<close>

theorem master_chain_preserves_shape:
  "(frame_count (to_float32_audio raw) = raw_frame_count raw \<and>
    channel_count (to_float32_audio raw) = raw_channel_count raw) \<and>
   (\<forall>h. highpass a sr cutoff_hz = Inr h \<longrightarrow>
      frame_count h = frame_count a \<and> channel_count h = channel_count a) \<and>
   (frame_count (apply_gain t l a) = frame_count a \<and>
    channel_count (apply_gain t l a) = channel_count a) \<and>
   (frame_count (soft_limiter a th) = frame_count a \<and>
    channel_count (soft_limiter a th) = channel_count a) \<and>
   (frame_count (true_peak_guard a db) = frame_count a \<and>
    channel_count (true_peak_guard a db) = channel_count a) \<and>
   (\<forall>out. master_chain meter raw sr t = Inr out \<longrightarrow>
      frame_count out = raw_frame_count raw \<and> channel_count out = raw_channel_count raw \<and>
      map length (columns out) = raw_columns_length raw) \<and>
   (0 < sr \<longrightarrow>
      (\<exists>h. highpass (to_float32_audio raw) sr 80 = Inr h \<and>
         (\<forall>v. meter sr (audio_for_lufs h) = Inr v \<longrightarrow>
            (\<exists>out. master_chain meter raw sr t = Inr out))))"
proof -
  have last: "\<exists>h. highpass (to_float32_audio raw) sr 80 = Inr h \<and>
         (\<forall>v. meter sr (audio_for_lufs h) = Inr v \<longrightarrow>
            (\<exists>out. master_chain meter raw sr t = Inr out))" if sr: "0 < sr"
  proof -
    obtain h where h: "highpass (to_float32_audio raw) sr 80 = Inr h"
      using highpass_succeeds [OF sr, of 80] by auto
    have "\<exists>out. master_chain meter raw sr t = Inr out"
      if "meter sr (audio_for_lufs h) = Inr v" for v
      unfolding master_chain_def using that by (simp add: h)
    then show ?thesis using h by blast
  qed
  show ?thesis
    using shape_master_chain [of meter raw sr t] shape_highpass [of a sr cutoff_hz] last
    by (simp add: shape_to_float32_audio shape_apply_gain shape_soft_limiter shape_true_peak_guard)
qed

theorem master_chain_preserves_shape_witness:
  "\<exists>out. master_chain (\<lambda>sr b. Inr (Fin (- 20)))
       (FloatAudio (Arr2 2 [[Fin 1, Fin 0], [Fin 0, Fin 1], [Fin 1, Fin 1]])) 44100 (Fin (- 14)) =
         Inr out \<and>
     frame_count out = 2 \<and> channel_count out = 3"
proof -
  note w = master_chain_preserves_shape [where
      raw = "FloatAudio (Arr2 2 [[Fin 1, Fin 0], [Fin 0, Fin 1], [Fin 1, Fin 1]])"
      and sr = 44100 and meter = "\<lambda>sr b. Inr (Fin (- 20))" and t = "Fin (- 14)"
      and a = "Arr1 [Fin 1]" and cutoff_hz = 80 and l = "Fin 0" and th = 1 and db = 0]
  from w obtain out where out: "master_chain (\<lambda>sr b. Inr (Fin (- 20)))
       (FloatAudio (Arr2 2 [[Fin 1, Fin 0], [Fin 0, Fin 1], [Fin 1, Fin 1]])) 44100 (Fin (- 14)) =
         Inr out"
    by auto
  with w have "frame_count out = 2 \<and> channel_count out = 3" by simp
  with out show ?thesis by blast
qed

section \<open>The channels that the loudness meter sees\<close>

text \<open>
  C9. For a buffer of more than two channels the loudness meter is given exactly the first
  two channels of the filtered buffer, which are the filtered first two channels of the
  input, so the loudness and the gain depend on no other channel; the gain, the limiter and
  the peak guard are applied to the filtered buffer with all its channels.
\<close>

theorem loudness_from_first_two_channels:
  assumes "to_float32_audio raw = Arr2 n cols" and "2 < length cols"
    and "highpass_coeff sr 80 = Inr a"
  shows "highpass (to_float32_audio raw) sr 80 =
           Inr (Arr2 n (map (highpass_loop a (Fin 0) (Fin 0)) cols)) \<and>
         audio_for_lufs (Arr2 n (map (highpass_loop a (Fin 0) (Fin 0)) cols)) =
           Arr2 n (map (highpass_loop a (Fin 0) (Fin 0)) (take 2 cols)) \<and>
         master_chain meter raw sr t =
           (case meter sr (Arr2 n (map (highpass_loop a (Fin 0) (Fin 0)) (take 2 cols))) of
              Inl e \<Rightarrow> Inl e
            | Inr loudness \<Rightarrow>
                Inr (true_peak_guard (soft_limiter (apply_gain t loudness
                       (Arr2 n (map (highpass_loop a (Fin 0) (Fin 0)) cols))) 0.95) (- 1)))"
  unfolding master_chain_def using assms by (simp add: take_map)

theorem loudness_from_first_two_channels_witness:
  "\<exists>a. highpass_coeff 44100 80 = Inr a \<and>
     master_chain (\<lambda>sr b. if channel_count b = 2 then Inr (Fin (- 20)) else Inl ValueError)
       (FloatAudio (Arr2 1 [[Fin 0], [Fin 0], [Fin 1]])) 44100 (Fin (- 14)) =
     Inr (true_peak_guard (soft_limiter (apply_gain (Fin (- 14)) (Fin (- 20))
            (Arr2 1 [[Fin 0], [Fin 0], [Fin a]])) 0.95) (- 1))"
proof -
  obtain a where a: "highpass_coeff 44100 80 = Inr a"
    using highpass_coeff_positive [of 44100 80] by simp
  show ?thesis
    using loudness_from_first_two_channels [of "FloatAudio (Arr2 1 [[Fin 0], [Fin 0], [Fin 1]])"
        1 "[[Fin 0], [Fin 0], [Fin 1]]" 44100 a
        "\<lambda>sr b. if channel_count b = 2 then Inr (Fin (- 20)) else Inl ValueError" "Fin (- 14)"] a
    by (intro exI [of _ a]) (simp add: fsub_def Let_def)
qed

section \<open>The limiter threshold\<close>

text \<open>
  C6. A limiter threshold outside \<open>(0, 1]\<close> (zero, negative or greater than 1) is not an
  error: for every buffer the soft limiter gives what it gives with the threshold 0.95.
\<close>

theorem soft_limiter_out_of_range_threshold:
  "threshold \<le> 0 \<or> 1 < threshold \<Longrightarrow> soft_limiter audio threshold = soft_limiter audio 0.95"
  by (simp add: soft_limiter_def)

theorem soft_limiter_out_of_range_threshold_witness:
  "((2::real) \<le> 0 \<or> 1 < (2::real)) \<and>
   soft_limiter (Arr2 1 [[Fin 3], [Fin (- 4)]]) 2 = soft_limiter (Arr2 1 [[Fin 3], [Fin (- 4)]]) 0.95"
  using soft_limiter_out_of_range_threshold [of 2 "Arr2 1 [[Fin 3], [Fin (- 4)]]"] by simp

section \<open>The sample normalizer\<close>

text \<open>
  C8. The claim: integer input is divided by the encoding's maximum magnitude and the
  output lies in \<open>[-1, 1]\<close> for every representable sample. The code divides by
  \<^verbatim>\<open>np.iinfo(dtype).max\<close>, which for a signed type is one less than the magnitude of the
  minimum: the int16 sample \<open>-32768\<close> is mapped to \<open>-32768 / 32767\<close>, below \<open>-1\<close>.
\<close>

theorem to_float32_audio_int16_minimum:
  "representable Int16 (- 32768) \<and>
   to_float32_audio (IntAudio Int16 (Arr1 [- 32768])) = Arr1 [Fin (- 32768 / 32767)] \<and>
   \<not> fle (Fin (- 1)) (Fin (- 32768 / 32767))"
  by (simp add: representable_def)

end
